theory Spec2Isabelle
  imports Complex_Main
begin

section \<open>JavaScript numbers\<close>

text \<open>
  A JavaScript number is an IEEE 754 double.  \<open>Fin m e\<close> stands for the finite value
  \<open>m * 2 ^ e\<close>; a double has \<open>\<bar>m\<bar> < 2 ^ 53\<close> and \<open>- 1074 \<le> e\<close>.  The sign of zero is
  not kept.  \<open>round_double M E\<close> is the double nearest to the exact value \<open>M * 2 ^ E\<close>,
  ties to the even significand: the significand keeps 53 bits (fewer below
  \<open>2 ^ - 1022\<close>, where the spacing stays \<open>2 ^ - 1074\<close>), and a result of \<open>2 ^ 1024\<close> or
  more is an infinity.  \<open>*\<close> and \<open>+\<close> round the exact product and the exact sum.
\<close>

datatype jsnum = Fin int int | PosInf | NegInf | NaN

fun bitlen :: "nat \<Rightarrow> nat" where
  "bitlen n = (if n = 0 then 0 else Suc (bitlen (n div 2)))"

declare bitlen.simps [simp del]

definition round_half_even :: "nat \<Rightarrow> nat \<Rightarrow> nat" where
  "round_half_even a s =
     (let q = a div 2 ^ s; r = a mod 2 ^ s
      in if 2 * r < 2 ^ s \<or> (2 * r = 2 ^ s \<and> even q) then q else q + 1)"

definition round_double :: "int \<Rightarrow> int \<Rightarrow> jsnum" where
  "round_double M E =
     (let a = nat \<bar>M\<bar>;
          q = max (int (bitlen a) - 53 + E) (- 1074);
          a' = (if q \<le> E then a else round_half_even a (nat (q - E)));
          e' = (if q \<le> E then E else q)
      in if a' = 0 then Fin 0 0
         else if int (bitlen a') + e' > 1024 then (if M < 0 then NegInf else PosInf)
         else Fin (if M < 0 then - int a' else int a') e')"

fun js_mul :: "jsnum \<Rightarrow> jsnum \<Rightarrow> jsnum" where
  "js_mul (Fin m1 e1) (Fin m2 e2) = round_double (m1 * m2) (e1 + e2)"
| "js_mul NaN _ = NaN"
| "js_mul _ NaN = NaN"
| "js_mul (Fin m e) PosInf = (if m = 0 then NaN else if 0 < m then PosInf else NegInf)"
| "js_mul (Fin m e) NegInf = (if m = 0 then NaN else if 0 < m then NegInf else PosInf)"
| "js_mul PosInf (Fin m e) = (if m = 0 then NaN else if 0 < m then PosInf else NegInf)"
| "js_mul NegInf (Fin m e) = (if m = 0 then NaN else if 0 < m then NegInf else PosInf)"
| "js_mul PosInf PosInf = PosInf"
| "js_mul NegInf NegInf = PosInf"
| "js_mul PosInf NegInf = NegInf"
| "js_mul NegInf PosInf = NegInf"

fun js_add :: "jsnum \<Rightarrow> jsnum \<Rightarrow> jsnum" where
  "js_add (Fin m1 e1) (Fin m2 e2) =
     (let E = min e1 e2
      in round_double (m1 * 2 ^ nat (e1 - E) + m2 * 2 ^ nat (e2 - E)) E)"
| "js_add NaN _ = NaN"
| "js_add _ NaN = NaN"
| "js_add PosInf NegInf = NaN"
| "js_add NegInf PosInf = NaN"
| "js_add PosInf _ = PosInf"
| "js_add NegInf _ = NegInf"
| "js_add _ PosInf = PosInf"
| "js_add _ NegInf = NegInf"

text \<open>
  \<open>s[Math.floor(x)]\<close> reads the string at the integer \<open>Math.floor(x)\<close>; an infinity or
  \<open>NaN\<close> is no index.
\<close>

fun floor_index :: "jsnum \<Rightarrow> int option" where
  "floor_index (Fin m e) = Some (if 0 \<le> e then m * 2 ^ nat e else m div 2 ^ nat (- e))"
| "floor_index _ = None"




text \<open>
  A result of \<open>Math.random()\<close>: a double that is at least 0 and less than 1.  Every such
  double is \<open>m * 2 ^ e\<close> with \<open>m\<close> and \<open>e\<close> as below.
\<close>

fun unit_double :: "jsnum \<Rightarrow> bool" where
  "unit_double (Fin m e) =
     (0 \<le> m \<and> m < 2 ^ 53 \<and> - 1074 \<le> e \<and> e \<le> 0 \<and> m < 2 ^ nat (- e))"
| "unit_double _ = False"

section \<open>The durable store (db\_pg.js, \<open>migrate\<close>)\<close>

text \<open>
  The four relations are created by \<open>migrate\<close>.  Timestamps are \<open>BIGINT\<close> milliseconds
  (\<open>Date.now()\<close>), status columns are \<open>TEXT\<close>, nullable columns are options.  A row of
  \<open>flat_requests\<close> is found by its primary key \<open>id\<close>, a row of \<open>flats\<close> by its primary
  key \<open>flat_id\<close>, so both tables are maps from the key to the remaining columns;
  \<open>setup_codes\<close> is kept in insertion order.  The two \<open>BIGSERIAL\<close> sequences are part of
  the store.  The \<open>TEXT\<close> columns that hold the strings of a caller (\<open>flat_id\<close>, \<open>name\<close>,
  \<open>note\<close>) have the type \<open>'t\<close> of those strings.  \<open>expires_at\<close> holds the number the manager
  passes to the insert.
\<close>

record 't flat_request =
  rq_flat_id :: 't
  rq_name :: 't
  rq_note :: "'t option"
  rq_status :: string
  rq_created_at :: int
  rq_updated_at :: int

record flat =
  fl_status :: string
  fl_pin_hash :: "string option"
  fl_password_hash :: "string option"
  fl_strike_count :: int
  fl_ban_until :: "int option"
  fl_requires_admin_revoke :: bool
  fl_created_at :: int
  fl_updated_at :: int
  fl_last_login_at :: "int option"

record 't setup_code =
  sc_id :: int
  sc_flat_id :: 't
  sc_code_hash :: string
  sc_expires_at :: jsnum
  sc_used_at :: "int option"
  sc_created_at :: int

record 't store =
  flat_requests :: "int \<rightharpoonup> 't flat_request"
  flat_requests_seq :: int
  flats :: "'t \<rightharpoonup> flat"
  setup_codes :: "'t setup_code list"
  setup_codes_seq :: int

datatype error = REQUEST_NOT_FOUND | FLAT_NOT_FOUND

section \<open>Credential and lifecycle manager (admin\_db\_pg.js)\<close>

text \<open>
  Every operation takes the store and the value of \<open>Date.now()\<close> read at its first line, and
  returns its result together with the store after its queries.
\<close>


text \<open>
  \<open>INSERT INTO flats (flat_id, status, created_at, updated_at) VALUES ($1,'ACTIVE',$2,$2)
  ON CONFLICT (flat_id) DO UPDATE SET status='ACTIVE', updated_at=$2\<close>.
  The columns the insert does not name take the defaults of the table definition.
\<close>

definition upsert_flat :: "('t \<rightharpoonup> flat) \<Rightarrow> 't \<Rightarrow> int \<Rightarrow> ('t \<rightharpoonup> flat)" where
  "upsert_flat tbl flat_id now =
     (case tbl flat_id of
        None \<Rightarrow> tbl(flat_id \<mapsto>
           \<lparr>fl_status = ''ACTIVE'', fl_pin_hash = None, fl_password_hash = None,
            fl_strike_count = 0, fl_ban_until = None, fl_requires_admin_revoke = False,
            fl_created_at = now, fl_updated_at = now, fl_last_login_at = None\<rparr>)
      | Some f \<Rightarrow> tbl(flat_id \<mapsto> f\<lparr>fl_status := ''ACTIVE'', fl_updated_at := now\<rparr>))"

text \<open>\<open>UPDATE flat_requests SET status=$s, updated_at=$2 WHERE id=$1\<close>\<close>

definition update_request_status ::
  "(int \<rightharpoonup> 't flat_request) \<Rightarrow> int \<Rightarrow> string \<Rightarrow> int
     \<Rightarrow> (int \<rightharpoonup> 't flat_request)" where
  "update_request_status tbl request_id s now =
     (case tbl request_id of
        None \<Rightarrow> tbl
      | Some r \<Rightarrow> tbl(request_id \<mapsto> r\<lparr>rq_status := s, rq_updated_at := now\<rparr>))"

definition adminApproveRequest :: "'t store \<Rightarrow> int \<Rightarrow> int \<Rightarrow> (error + 't) \<times> 't store" where
  "adminApproveRequest st now requestId =
     (case flat_requests st requestId of
        None \<Rightarrow> (Inl REQUEST_NOT_FOUND, st)
      | Some req \<Rightarrow>
          (let st1 = st\<lparr>flats := upsert_flat (flats st) (rq_flat_id req) now\<rparr>;
               st2 = st1\<lparr>flat_requests :=
                        update_request_status (flat_requests st1) requestId ''APPROVED'' now\<rparr>
           in (Inr (rq_flat_id req), st2)))"

text \<open>
  The reject route of server.js does its two queries itself:
  \<open>SELECT id FROM flat_requests WHERE id=$1\<close>, then
  \<open>UPDATE flat_requests SET status='REJECTED', updated_at=$2 WHERE id=$1\<close>.
\<close>

definition rejectRequest :: "'t store \<Rightarrow> int \<Rightarrow> int \<Rightarrow> (error + unit) \<times> 't store" where
  "rejectRequest st now requestId =
     (case flat_requests st requestId of
        None \<Rightarrow> (Inl REQUEST_NOT_FOUND, st)
      | Some _ \<Rightarrow>
          (Inr (), st\<lparr>flat_requests :=
                        update_request_status (flat_requests st) requestId ''REJECTED'' now\<rparr>))"

text \<open>
  \<open>UPDATE flats SET ban_until = NULL, requires_admin_revoke = FALSE, updated_at = $2
  WHERE flat_id = $1\<close>
\<close>

definition adminRevokeBan :: "'t store \<Rightarrow> int \<Rightarrow> 't \<Rightarrow> (error + unit) \<times> 't store" where
  "adminRevokeBan st now flat_id =
     (case flats st flat_id of
        None \<Rightarrow> (Inl FLAT_NOT_FOUND, st)
      | Some f \<Rightarrow>
          (Inr (), st\<lparr>flats := (flats st)(flat_id \<mapsto>
              f\<lparr>fl_ban_until := None, fl_requires_admin_revoke := False,
                 fl_updated_at := now\<rparr>)\<rparr>))"

text \<open>\<open>UPDATE flats SET status = $2, updated_at = $3 WHERE flat_id = $1\<close>\<close>

definition adminDisableFlat ::
  "'t store \<Rightarrow> int \<Rightarrow> 't \<Rightarrow> bool \<Rightarrow> (error + unit) \<times> 't store" where
  "adminDisableFlat st now flat_id disabled =
     (case flats st flat_id of
        None \<Rightarrow> (Inl FLAT_NOT_FOUND, st)
      | Some f \<Rightarrow>
          (Inr (), st\<lparr>flats := (flats st)(flat_id \<mapsto>
              f\<lparr>fl_status := (if disabled then ''DISABLED'' else ''ACTIVE''),
                 fl_updated_at := now\<rparr>)\<rparr>))"

section \<open>Setup codes (admin\_db\_pg.js)\<close>

text \<open>
  The JavaScript runtime offers two sources of randomness: \<open>Math.random()\<close>, whose
  successive results are doubles in the interval from 0 (included) to 1 (excluded), and the
  cryptographically secure generator of the \<open>crypto\<close> module.  Both are inputs of the model:
  the \<open>n\<close>-th field value is the result of the \<open>n\<close>-th call.
\<close>

record js_random =
  Math_random :: "nat \<Rightarrow> jsnum"
  crypto_getRandomValues :: "nat \<Rightarrow> nat"

definition letters :: string where
  "letters = ''ABCDEFGHJKLMNPQRSTUVWXYZ''"

definition digits :: string where
  "digits = ''23456789''"

text \<open>
  \<open>s[i]\<close> is \<open>undefined\<close> out of range, and \<open>join("")\<close> renders \<open>undefined\<close> as the empty
  string.
\<close>

definition char_at :: "string \<Rightarrow> int \<Rightarrow> string" where
  "char_at s i = (if 0 \<le> i \<and> i < int (length s) then [s ! nat i] else [])"

text \<open>
  \<open>alphabet[Math.floor(Math.random() * alphabet.length)]\<close>: the product is the rounded
  product of two doubles.
\<close>

definition random_char :: "string \<Rightarrow> jsnum \<Rightarrow> string" where
  "random_char alphabet r =
     (case floor_index (js_mul r (Fin (int (length alphabet)) 0)) of
        None \<Rightarrow> []
      | Some i \<Rightarrow> char_at alphabet i)"

text \<open>\<open>s.slice(0, e)\<close>: a negative end counts from the end of the string.\<close>

definition slice0 :: "string \<Rightarrow> int \<Rightarrow> string" where
  "slice0 s e =
     (let n = int (length s);
          k = (if e < 0 then max (n + e) 0 else min e n)
      in take (nat k) s)"

text \<open>
  \<open>Array.from({ length: 4 }, f)\<close> calls \<open>f\<close> for the indices 0 to 3 in order: the letters
  use the first four results of \<open>Math.random()\<close>, the digits the next four.
\<close>

definition generateHumanCode :: "int \<Rightarrow> js_random \<Rightarrow> string" where
  "generateHumanCode len rt =
     (let a = concat (map (\<lambda>k. random_char letters (Math_random rt k)) [0, 1, 2, 3]);
          b = concat (map (\<lambda>k. random_char digits (Math_random rt k)) [4, 5, 6, 7])
      in slice0 (a @ ''-'' @ b) (len + 1))"

record 't setup_code_result =
  res_flat_id :: 't
  res_code :: string
  res_expires_at :: jsnum

text \<open>
  \<open>bcrypt.hash(code, 10)\<close> is an input: the function from the plaintext to the hash that
  the library computes in this call (with the salt it draws).  \<open>now\<close> is the integer
  \<open>Date.now()\<close> returns, \<open>ttlMinutes\<close> any number, and
  \<open>now + ttlMinutes * 60_000\<close> is computed on doubles.
\<close>

definition adminGenerateSetupCode ::
  "'t store \<Rightarrow> int \<Rightarrow> js_random \<Rightarrow> (string \<Rightarrow> string) \<Rightarrow> 't \<Rightarrow> jsnum
     \<Rightarrow> (error + 't setup_code_result) \<times> 't store" where
  "adminGenerateSetupCode st now rt bcrypt_hash flat_id ttlMinutes =
     (case flats st flat_id of
        None \<Rightarrow> (Inl FLAT_NOT_FOUND, st)
      | Some _ \<Rightarrow>
          (let code = generateHumanCode 9 rt;
               code_hash = bcrypt_hash code;
               expires_at = js_add (Fin now 0) (js_mul ttlMinutes (Fin 60000 0));
               st1 = st\<lparr>setup_codes := setup_codes st @
                          [\<lparr>sc_id = setup_codes_seq st, sc_flat_id = flat_id,
                            sc_code_hash = code_hash, sc_expires_at = expires_at,
                            sc_used_at = None, sc_created_at = now\<rparr>],
                        setup_codes_seq := setup_codes_seq st + 1\<rparr>;
               st2 = st1\<lparr>flats := (case flats st1 flat_id of
                          None \<Rightarrow> flats st1
                        | Some f \<Rightarrow> (flats st1)(flat_id \<mapsto>
                            f\<lparr>fl_pin_hash := None, fl_updated_at := now\<rparr>))\<rparr>
           in (Inr \<lparr>res_flat_id = flat_id, res_code = code, res_expires_at = expires_at\<rparr>,
               st2)))"

section \<open>Request metrics (server.js)\<close>

record metrics =
  startedAt :: int
  totalRequests :: nat
  inFlight :: nat
  uniqueIPs :: "string list"
  requestTimestamps :: "int list"

text \<open>
  \<open>while (ts.length && ts[0] < cutoff) ts.shift()\<close>: the loop looks at the head of the
  array only.
\<close>

fun shift_while_old :: "int \<Rightarrow> int list \<Rightarrow> int list" where
  "shift_while_old cutoff [] = []"
| "shift_while_old cutoff (t # ts) =
     (if t < cutoff then shift_while_old cutoff ts else t # ts)"

definition pruneOldRequests :: "int \<Rightarrow> metrics \<Rightarrow> metrics" where
  "pruneOldRequests now m =
     m\<lparr>requestTimestamps := shift_while_old (now - 60000) (requestTimestamps m)\<rparr>"

text \<open>
  The counting middleware is installed with \<open>app.use\<close> before every route, so it runs for
  each HTTP request, the metrics route included.  \<open>uniqueIPs\<close> is a \<open>Set\<close>, kept here as a
  list without duplicates.
\<close>

definition count_request :: "int \<Rightarrow> string \<Rightarrow> metrics \<Rightarrow> metrics" where
  "count_request now ip m =
     pruneOldRequests now
       (m\<lparr>totalRequests := totalRequests m + 1,
          inFlight := inFlight m + 1,
          uniqueIPs := List.insert ip (uniqueIPs m),
          requestTimestamps := requestTimestamps m @ [now]\<rparr>)"

text \<open>\<open>res.on("finish")\<close>: \<open>Math.max(0, inFlight - 1)\<close>\<close>

definition on_finish :: "metrics \<Rightarrow> metrics" where
  "on_finish m = m\<lparr>inFlight := inFlight m - 1\<rparr>"

record metrics_report =
  mr_uptimeSec :: int
  mr_totalRequests :: nat
  mr_inFlight :: nat
  mr_uniqueIPs :: nat
  mr_rpm :: nat

text \<open>
  The body of the route \<open>GET /admin/api/metrics\<close>; the \<open>mem\<close> field
  (\<open>process.memoryUsage()\<close>) is left out.
\<close>

definition metrics_handler :: "int \<Rightarrow> metrics \<Rightarrow> metrics_report \<times> metrics" where
  "metrics_handler now m =
     (let m1 = pruneOldRequests now m
      in (\<lparr>mr_uptimeSec = (now - startedAt m1) div 1000,
            mr_totalRequests = totalRequests m1,
            mr_inFlight = inFlight m1,
            mr_uniqueIPs = length (uniqueIPs m1),
            mr_rpm = length (requestTimestamps m1)\<rparr>, m1))"

datatype http_error = UNAUTHORIZED | REDIRECT_LOGIN

text \<open>
  \<open>requireAdmin\<close>: \<open>req.session?.isAdmin === true\<close>; otherwise 401 on the paths under
  \<open>/admin/api\<close> and a redirect to the login page elsewhere.
\<close>

definition starts_with :: "string \<Rightarrow> string \<Rightarrow> bool" where
  "starts_with s p = (take (length p) s = p)"

definition requireAdmin :: "bool option \<Rightarrow> string \<Rightarrow> http_error option" where
  "requireAdmin isAdmin path =
     (if isAdmin = Some True then None
      else if starts_with path ''/admin/api'' then Some UNAUTHORIZED
      else Some REDIRECT_LOGIN)"

text \<open>
  One HTTP request \<open>GET /admin/api/metrics\<close> as the server handles it: the counting
  middleware at \<open>t_mw\<close>, then \<open>requireAdmin\<close>, then the handler at \<open>t_h\<close>.
\<close>

definition get_admin_api_metrics ::
  "int \<Rightarrow> int \<Rightarrow> string \<Rightarrow> bool option \<Rightarrow> metrics \<Rightarrow> (http_error + metrics_report) \<times> metrics" where
  "get_admin_api_metrics t_mw t_h ip isAdmin m =
     (let m1 = count_request t_mw ip m
      in case requireAdmin isAdmin ''/admin/api/metrics'' of
           Some e \<Rightarrow> (Inl e, m1)
         | None \<Rightarrow> (case metrics_handler t_h m1 of (r, m2) \<Rightarrow> (Inr r, m2)))"

text \<open>
  The readings \<open>buildSnapshot\<close> takes from the process and the host
  (\<open>process.memoryUsage()\<close>, \<open>os.totalmem()\<close>, \<open>os.freemem()\<close>, \<open>os.cpus().length\<close>,
  \<open>os.loadavg()[0]\<close>).
\<close>

record host_readings =
  rss :: real
  heapUsed :: real
  heapTotal :: real
  external :: real
  totalMem :: real
  freeMem :: real
  cpuCores :: nat
  load1 :: real

record snapshot =
  sn_ts :: int
  sn_uptimeSec :: int
  sn_totalRequests :: nat
  sn_inFlight :: nat
  sn_uniqueIPs :: nat
  sn_rpm :: nat
  sn_viewers :: nat
  sn_mem :: "real \<times> real \<times> real \<times> real"
  sn_usedMem :: real
  sn_cpuPressure :: real
  sn_host :: host_readings
  sn_thresholds :: "real \<times> real \<times> real \<times> real \<times> nat \<times> nat"

definition buildSnapshot :: "int \<Rightarrow> host_readings \<Rightarrow> nat \<Rightarrow> metrics \<Rightarrow> snapshot \<times> metrics" where
  "buildSnapshot now h viewers m =
     (let m1 = pruneOldRequests now m
      in (\<lparr>sn_ts = now,
            sn_uptimeSec = (now - startedAt m1) div 1000,
            sn_totalRequests = totalRequests m1,
            sn_inFlight = inFlight m1,
            sn_uniqueIPs = length (uniqueIPs m1),
            sn_rpm = length (requestTimestamps m1),
            sn_viewers = viewers,
            sn_mem = (rss h, heapUsed h, heapTotal h, external h),
            sn_usedMem = totalMem h - freeMem h,
            sn_cpuPressure = (if cpuCores h \<noteq> 0 then load1 h / real (cpuCores h) else 0),
            sn_host = h,
            sn_thresholds = (7 / 10, 9 / 10, 7 / 10, 85 / 100, 120, 240)\<rparr>, m1))"

section \<open>Snapshot proxy (server.js, \<open>fetchUserLiveSnapshot\<close>)\<close>

text \<open>
  A parsed JSON value.  An object is the list of its members; a member is read with
  \<open>map_of\<close>.  Numbers are the reals they denote.
\<close>

datatype json =
    JNull
  | JBool bool
  | JNum real
  | JStr string
  | JArr "json list"
  | JObj "(string \<times> json) list"

text \<open>
  \<open>data?.key\<close> for the keys \<open>ok\<close> and \<open>error\<close>: \<open>undefined\<close> (here \<open>None\<close>) when
  \<open>data\<close> is \<open>null\<close>, a primitive or an array, or an object without the member.
\<close>

fun get_member :: "json \<Rightarrow> string \<Rightarrow> json option" where
  "get_member (JObj kvs) k = map_of kvs k"
| "get_member _ k = None"

fun truthy :: "json \<Rightarrow> bool" where
  "truthy JNull = False"
| "truthy (JBool b) = b"
| "truthy (JNum x) = (x \<noteq> 0)"
| "truthy (JStr s) = (s \<noteq> [])"
| "truthy (JArr _) = True"
| "truthy (JObj _) = True"

text \<open>
  The upstream response as \<open>fetch\<close> delivers it: the status, the \<open>content-type\<close> header
  (\<open>None\<close> when absent) and the body text (\<open>None\<close> when reading the body fails).
\<close>

record response =
  rs_status :: nat
  rs_content_type :: "string option"
  rs_body :: "string option"

text \<open>
  What the function throws: \<open>new Error(arg)\<close> with the argument it is given (a string, or
  the member \<open>error\<close> of the payload), the rejection of \<open>fetch\<close>, or the rejection of
  \<open>res.json()\<close> (unreadable body or text that is not JSON).
\<close>

datatype thrown = Error json | FetchRejected | JsonRejected

text \<open>Decimal digits of a number, as a template literal renders an integer.\<close>

fun decimal :: "nat \<Rightarrow> string" where
  "decimal n =
     (if n < 10 then [''0123456789'' ! n]
      else decimal (n div 10) @ [''0123456789'' ! (n mod 10)])"

declare decimal.simps [simp del]

text \<open>
  \<open>toLowerCase\<close> on a header value: the ASCII capital letters become small, every other
  character is kept.
\<close>

definition upper_letters :: string where
  "upper_letters = ''ABCDEFGHIJKLMNOPQRSTUVWXYZ''"

definition lower_letters :: string where
  "lower_letters = ''abcdefghijklmnopqrstuvwxyz''"

definition lower_char :: "char \<Rightarrow> char" where
  "lower_char c = (case map_of (zip upper_letters lower_letters) c of None \<Rightarrow> c | Some d \<Rightarrow> d)"

definition toLowerCase :: "string \<Rightarrow> string" where
  "toLowerCase s = map lower_char s"

text \<open>\<open>s.includes(p)\<close>: \<open>p\<close> occurs in \<open>s\<close> as a contiguous substring.\<close>

fun includes_str :: "string \<Rightarrow> string \<Rightarrow> bool" where
  "includes_str [] p = (p = [])"
| "includes_str (c # s) p = (starts_with (c # s) p \<or> includes_str s p)"

text \<open>\<open>res.ok\<close>: the status is in the range 200 to 299.\<close>

definition res_ok :: "response \<Rightarrow> bool" where
  "res_ok res = (200 \<le> rs_status res \<and> rs_status res \<le> 299)"

definition declares_json :: "response \<Rightarrow> bool" where
  "declares_json res =
     includes_str (toLowerCase (case rs_content_type res of None \<Rightarrow> [] | Some v \<Rightarrow> v))
       ''application/json''"

text \<open>
  \<open>JSON_parse\<close> is the parser of the runtime (\<open>None\<close> on text that is not JSON); the
  second argument is the outcome of \<open>fetch\<close> (\<open>None\<close> when it rejects).
\<close>

definition fetchUserLiveSnapshot ::
  "(string \<Rightarrow> json option) \<Rightarrow> response option \<Rightarrow> thrown + json" where
  "fetchUserLiveSnapshot JSON_parse fetched =
     (case fetched of
        None \<Rightarrow> Inl FetchRejected
      | Some res \<Rightarrow>
          if \<not> declares_json res then
            (let body_text = (case rs_body res of None \<Rightarrow> [] | Some t \<Rightarrow> t)
             in Inl (Error (JStr (''BAD_SNAPSHOT_RESPONSE ('' @ decimal (rs_status res) @ '') ''
                                   @ slice0 body_text 120))))
          else
            (case (case rs_body res of None \<Rightarrow> None | Some t \<Rightarrow> JSON_parse t) of
               None \<Rightarrow> Inl JsonRejected
             | Some data \<Rightarrow>
                 if \<not> res_ok res \<or> get_member data ''ok'' = Some (JBool False) then
                   Inl (Error (case get_member data ''error'' of
                                 None \<Rightarrow> JStr (''SNAPSHOT_HTTP_'' @ decimal (rs_status res))
                               | Some e \<Rightarrow>
                                   if truthy e then e
                                   else JStr (''SNAPSHOT_HTTP_'' @ decimal (rs_status res))))
                 else Inr data))"

section \<open>HTTP routes that take a flat id (server.js)\<close>











section \<open>WebSocket channel (server.js)\<close>














section \<open>The format of a setup code, as the specification words it\<close>

text \<open>
  A letter of the code is a capital letter other than I and O, a digit of the code is a
  decimal digit other than 0 and 1, and a code is four letters, a hyphen and four digits.
\<close>

definition is_code_letter :: "char \<Rightarrow> bool" where
  "is_code_letter c =
     (let n = (of_char c :: nat) in 65 \<le> n \<and> n \<le> 90 \<and> c \<noteq> CHR ''I'' \<and> c \<noteq> CHR ''O'')"

definition is_code_digit :: "char \<Rightarrow> bool" where
  "is_code_digit c =
     (let n = (of_char c :: nat) in 48 \<le> n \<and> n \<le> 57 \<and> c \<noteq> CHR ''0'' \<and> c \<noteq> CHR ''1'')"

definition setup_code_pattern :: "string \<Rightarrow> bool" where
  "setup_code_pattern code =
     (length code = 9 \<and> list_all is_code_letter (take 4 code) \<and> code ! 4 = CHR ''-''
      \<and> list_all is_code_digit (drop 5 code))"

section \<open>Transports without WebSocket traffic\<close>


section \<open>Flat ids that differ only in letter case or in surrounding white space\<close>





section \<open>The declared content type, as the specification words it\<close>

text \<open>
  The media type a \<open>content-type\<close> header declares is the part before the first semicolon,
  without the spaces and tabs around it, in small letters.  The response declares JSON when
  that media type is \<open>application/json\<close>.
\<close>

definition is_ows :: "char \<Rightarrow> bool" where
  "is_ows c = (c = CHR '' '' \<or> c = CHR 0x09)"

definition media_type :: "string \<Rightarrow> string" where
  "media_type v =
     toLowerCase (rev (dropWhile is_ows (rev (dropWhile is_ows (takeWhile (\<lambda>c. c \<noteq> CHR '';'') v)))))"

definition declared_type_is_json :: "response \<Rightarrow> bool" where
  "declared_type_is_json res =
     (media_type (case rs_content_type res of None \<Rightarrow> [] | Some v \<Rightarrow> v) = ''application/json'')"

section \<open>Example data\<close>

text \<open>Concrete stores and inputs on which the operations are evaluated below.\<close>

definition store0 :: "string store" where
  "store0 = \<lparr>flat_requests = Map.empty, flat_requests_seq = 1, flats = Map.empty,
             setup_codes = [], setup_codes_seq = 1\<rparr>"

definition request_b12 :: "string flat_request" where
  "request_b12 = \<lparr>rq_flat_id = ''B12'', rq_name = ''Jane'', rq_note = Some [],
                  rq_status = ''PENDING'', rq_created_at = 300, rq_updated_at = 300\<rparr>"

definition flat_b12_banned :: flat where
  "flat_b12_banned =
     \<lparr>fl_status = ''DISABLED'', fl_pin_hash = Some ''$2b$10$pin'', fl_password_hash = None,
      fl_strike_count = 3, fl_ban_until = Some 9000000, fl_requires_admin_revoke = True,
      fl_created_at = 100, fl_updated_at = 200, fl_last_login_at = Some 150\<rparr>"

definition store_pending :: "string store" where
  "store_pending = store0\<lparr>flat_requests := [1 \<mapsto> request_b12], flat_requests_seq := 2\<rparr>"

definition store_banned :: "string store" where
  "store_banned = store_pending\<lparr>flats := [''B12'' \<mapsto> flat_b12_banned]\<rparr>"

definition store_rejected :: "string store" where
  "store_rejected = snd (rejectRequest store_pending 4000 1)"

definition random_zero :: js_random where
  "random_zero = \<lparr>Math_random = (\<lambda>n. Fin 0 0), crypto_getRandomValues = (\<lambda>n. 0)\<rparr>"

definition random_half :: js_random where
  "random_half = \<lparr>Math_random = (\<lambda>n. Fin 1 (- 1)), crypto_getRandomValues = (\<lambda>n. 0)\<rparr>"

definition metrics0 :: metrics where
  "metrics0 = \<lparr>startedAt = 0, totalRequests = 0, inFlight = 0, uniqueIPs = [],
                requestTimestamps = []\<rparr>"

definition metrics_two :: metrics where
  "metrics_two = count_request 1000 ''10.0.0.1'' (count_request 0 ''10.0.0.1'' metrics0)"

definition host0 :: host_readings where
  "host0 = \<lparr>rss = 0, heapUsed = 0, heapTotal = 0, external = 0, totalMem = 8, freeMem = 4,
             cpuCores = 2, load1 = 1\<rparr>"

definition metrics_clock_back :: metrics where
  "metrics_clock_back = count_request 0 ''10.0.0.1'' (count_request 70000 ''10.0.0.1'' metrics0)"

definition html_response :: response where
  "html_response = \<lparr>rs_status = 502, rs_content_type = Some ''text/html; charset=utf-8'',
        rs_body = Some (''<html>'' @ replicate 200 CHR ''x'')\<rparr>"

definition json_error_response :: response where
  \<open>json_error_response = \<lparr>rs_status = 200, rs_content_type = Some ''Application/JSON'',
        rs_body = Some ''{"ok":false,"error":"BAD_TOKEN"}''\<rparr>\<close>

definition json_ok_response :: response where
  \<open>json_ok_response = \<lparr>rs_status = 200, rs_content_type = Some ''application/json; charset=utf-8'',
        rs_body = Some ''{"ok":true,"streams":[]}''\<rparr>\<close>

definition param_json_response :: response where
  \<open>param_json_response = \<lparr>rs_status = 200,
        rs_content_type = Some ''text/plain; x=application/json'',
        rs_body = Some ''{"ok":true,"streams":[]}''\<rparr>\<close>

definition number_error_response :: response where
  \<open>number_error_response = \<lparr>rs_status = 200, rs_content_type = Some ''application/json'',
        rs_body = Some ''{"ok":false,"error":42}''\<rparr>\<close>

definition empty_error_response :: response where
  \<open>empty_error_response = \<lparr>rs_status = 200, rs_content_type = Some ''application/json'',
        rs_body = Some ''{"ok":false,"error":""}''\<rparr>\<close>

definition example_parse :: "string \<Rightarrow> json option" where
  \<open>example_parse t =
     (if t = ''{"ok":false,"error":"BAD_TOKEN"}'' then
        Some (JObj [(''ok'', JBool False), (''error'', JStr ''BAD_TOKEN'')])
      else if t = ''{"ok":false,"error":42}'' then
        Some (JObj [(''ok'', JBool False), (''error'', JNum 42)])
      else if t = ''{"ok":false,"error":""}'' then
        Some (JObj [(''ok'', JBool False), (''error'', JStr [])])
      else if t = ''{"ok":true,"streams":[]}'' then
        Some (JObj [(''ok'', JBool True), (''streams'', JArr [])])
      else None)\<close>











section \<open>Properties\<close>

subsection \<open>Evaluation of the examples\<close>

lemma store_pending_request: "flat_requests store_pending 1 = Some request_b12"
  by (simp add: store_pending_def store0_def)

lemma store_pending_no_request: "flat_requests store_pending 7 = None"
  by (simp add: store_pending_def store0_def)

lemma store_pending_no_flat: "flats store_pending ''B12'' = None"
  by (simp add: store_pending_def store0_def)

lemma store_banned_request: "flat_requests store_banned 1 = Some request_b12"
  by (simp add: store_banned_def store_pending_def store0_def)

lemma store_banned_flat: "flats store_banned ''B12'' = Some flat_b12_banned"
  by (simp add: store_banned_def store_pending_def store0_def)


lemma request_b12_flat_id: "rq_flat_id request_b12 = ''B12''"
  by (simp add: request_b12_def)

subsection \<open>Approval\<close>

text \<open>
  C1.  An \<open>adminApproveRequest\<close> call on an existing request succeeds with the request's
  flat id.  If no row of \<open>flats\<close> has that id, a row is created with status ACTIVE, strike
  count 0, no ban and \<open>requires_admin_revoke\<close> false (and no pin or password hash, no last
  login, both timestamps set to the time of the call).  If a row exists, its status becomes
  ACTIVE and \<open>updated_at\<close> the time of the call, while its strike count, ban and
  \<open>requires_admin_revoke\<close> keep their values.
\<close>

theorem C1_approve_upserts_flat:
  assumes "flat_requests st requestId = Some req"
  shows "fst (adminApproveRequest st now requestId) = Inr (rq_flat_id req)
    \<and> (flats st (rq_flat_id req) = None \<longrightarrow>
         flats (snd (adminApproveRequest st now requestId)) (rq_flat_id req) =
           Some \<lparr>fl_status = ''ACTIVE'', fl_pin_hash = None, fl_password_hash = None,
                 fl_strike_count = 0, fl_ban_until = None, fl_requires_admin_revoke = False,
                 fl_created_at = now, fl_updated_at = now, fl_last_login_at = None\<rparr>)
    \<and> (\<forall>f. flats st (rq_flat_id req) = Some f \<longrightarrow>
         (\<exists>f'. flats (snd (adminApproveRequest st now requestId)) (rq_flat_id req) = Some f'
            \<and> fl_status f' = ''ACTIVE'' \<and> fl_updated_at f' = now
            \<and> fl_strike_count f' = fl_strike_count f
            \<and> fl_ban_until f' = fl_ban_until f
            \<and> fl_requires_admin_revoke f' = fl_requires_admin_revoke f))"
  using assms by (simp add: adminApproveRequest_def upsert_flat_def Let_def)

theorem C1_approve_upserts_flat_witness:
  "flat_requests store_pending 1 = Some request_b12
   \<and> flats store_pending ''B12'' = None
   \<and> map_option fl_strike_count
        (flats (snd (adminApproveRequest store_pending 5000 1)) ''B12'') = Some 0
   \<and> flat_requests store_banned 1 = Some request_b12
   \<and> flats store_banned ''B12'' = Some flat_b12_banned
   \<and> map_option fl_strike_count
        (flats (snd (adminApproveRequest store_banned 5000 1)) ''B12'') = Some 3
   \<and> map_option fl_ban_until
        (flats (snd (adminApproveRequest store_banned 5000 1)) ''B12'') = Some (Some 9000000)
   \<and> map_option fl_requires_admin_revoke
        (flats (snd (adminApproveRequest store_banned 5000 1)) ''B12'') = Some True
   \<and> map_option fl_status
        (flats (snd (adminApproveRequest store_banned 5000 1)) ''B12'') = Some ''ACTIVE''"
proof -
  note r1 = store_pending_request and r2 = store_banned_request
  have f1: "flats store_pending (rq_flat_id request_b12) = None"
    by (simp add: request_b12_flat_id store_pending_no_flat)
  have f2: "flats store_banned (rq_flat_id request_b12) = Some flat_b12_banned"
    by (simp add: request_b12_flat_id store_banned_flat)
  from C1_approve_upserts_flat [OF r1, of 5000] f1
  have a: "map_option fl_strike_count
             (flats (snd (adminApproveRequest store_pending 5000 1)) ''B12'') = Some 0"
    by (simp add: request_b12_flat_id)
  from C1_approve_upserts_flat [OF r2, of 5000] f2
  obtain f' where "flats (snd (adminApproveRequest store_banned 5000 1)) ''B12'' = Some f'"
    "fl_status f' = ''ACTIVE''" "fl_strike_count f' = fl_strike_count flat_b12_banned"
    "fl_ban_until f' = fl_ban_until flat_b12_banned"
    "fl_requires_admin_revoke f' = fl_requires_admin_revoke flat_b12_banned"
    by (auto simp: request_b12_flat_id)
  then have b:
    "map_option fl_strike_count
       (flats (snd (adminApproveRequest store_banned 5000 1)) ''B12'') = Some 3"
    "map_option fl_ban_until
       (flats (snd (adminApproveRequest store_banned 5000 1)) ''B12'') = Some (Some 9000000)"
    "map_option fl_requires_admin_revoke
       (flats (snd (adminApproveRequest store_banned 5000 1)) ''B12'') = Some True"
    "map_option fl_status
       (flats (snd (adminApproveRequest store_banned 5000 1)) ''B12'') = Some ''ACTIVE''"
    by (simp_all add: flat_b12_banned_def)
  from r1 r2 f1 f2 a b show ?thesis by (simp add: request_b12_flat_id)
qed

text \<open>
  C2.  The specification says that a request whose status is APPROVED or REJECTED keeps that status
  under every later approve or reject call.  Neither operation reads the status before it
  writes: on the store in which request 1 has been rejected, \<open>adminApproveRequest\<close> sets its
  status to APPROVED, and a reject call after that sets it back to REJECTED.
\<close>

theorem C2_terminal_status_overwritten:
  "map_option rq_status (flat_requests store_rejected 1) = Some ''REJECTED''
   \<and> map_option rq_status (flat_requests (snd (adminApproveRequest store_rejected 5000 1)) 1)
       = Some ''APPROVED''
   \<and> map_option fl_status (flats (snd (adminApproveRequest store_rejected 5000 1)) ''B12'')
       = Some ''ACTIVE''
   \<and> map_option rq_status
        (flat_requests
           (snd (rejectRequest (snd (adminApproveRequest store_rejected 5000 1)) 6000 1)) 1)
       = Some ''REJECTED''"
  by (simp add: store_rejected_def store_pending_def store0_def rejectRequest_def
      adminApproveRequest_def update_request_status_def upsert_flat_def Let_def request_b12_def)

subsection \<open>Ban revocation and disabling\<close>

text \<open>
  C10.  On an existing flat, \<open>adminRevokeBan\<close> succeeds and changes only the columns
  \<open>ban_until\<close> (to null), \<open>requires_admin_revoke\<close> (to false) and \<open>updated_at\<close> of that
  flat, and \<open>adminDisableFlat\<close> succeeds and changes only its \<open>status\<close> and \<open>updated_at\<close>.
  Every other column of the flat, every other flat, and the tables \<open>flat_requests\<close> and
  \<open>setup_codes\<close> with their sequences are as before.
\<close>

theorem C10_revoke_disable_frame:
  assumes "flats st flat_id = Some f"
  shows "(let st' = snd (adminRevokeBan st now flat_id) in
            fst (adminRevokeBan st now flat_id) = Inr ()
          \<and> flat_requests st' = flat_requests st
          \<and> flat_requests_seq st' = flat_requests_seq st
          \<and> setup_codes st' = setup_codes st
          \<and> setup_codes_seq st' = setup_codes_seq st
          \<and> (\<forall>k. k \<noteq> flat_id \<longrightarrow> flats st' k = flats st k)
          \<and> flats st' flat_id =
              Some \<lparr>fl_status = fl_status f, fl_pin_hash = fl_pin_hash f,
                    fl_password_hash = fl_password_hash f, fl_strike_count = fl_strike_count f,
                    fl_ban_until = None, fl_requires_admin_revoke = False,
                    fl_created_at = fl_created_at f, fl_updated_at = now,
                    fl_last_login_at = fl_last_login_at f\<rparr>)
       \<and> (let st' = snd (adminDisableFlat st now flat_id disabled) in
            fst (adminDisableFlat st now flat_id disabled) = Inr ()
          \<and> flat_requests st' = flat_requests st
          \<and> flat_requests_seq st' = flat_requests_seq st
          \<and> setup_codes st' = setup_codes st
          \<and> setup_codes_seq st' = setup_codes_seq st
          \<and> (\<forall>k. k \<noteq> flat_id \<longrightarrow> flats st' k = flats st k)
          \<and> flats st' flat_id =
              Some \<lparr>fl_status = (if disabled then ''DISABLED'' else ''ACTIVE''),
                    fl_pin_hash = fl_pin_hash f,
                    fl_password_hash = fl_password_hash f, fl_strike_count = fl_strike_count f,
                    fl_ban_until = fl_ban_until f,
                    fl_requires_admin_revoke = fl_requires_admin_revoke f,
                    fl_created_at = fl_created_at f, fl_updated_at = now,
                    fl_last_login_at = fl_last_login_at f\<rparr>)"
  using assms by (simp add: adminRevokeBan_def adminDisableFlat_def Let_def)

theorem C10_revoke_disable_frame_witness:
  "flats store_banned ''B12'' = Some flat_b12_banned
   \<and> flats (snd (adminRevokeBan store_banned 7000 ''B12'')) ''B12'' =
        Some \<lparr>fl_status = ''DISABLED'', fl_pin_hash = Some ''$2b$10$pin'',
              fl_password_hash = None, fl_strike_count = 3, fl_ban_until = None,
              fl_requires_admin_revoke = False, fl_created_at = 100, fl_updated_at = 7000,
              fl_last_login_at = Some 150\<rparr>
   \<and> flats (snd (adminDisableFlat store_banned 7000 ''B12'' False)) ''B12'' =
        Some \<lparr>fl_status = ''ACTIVE'', fl_pin_hash = Some ''$2b$10$pin'',
              fl_password_hash = None, fl_strike_count = 3, fl_ban_until = Some 9000000,
              fl_requires_admin_revoke = True, fl_created_at = 100, fl_updated_at = 7000,
              fl_last_login_at = Some 150\<rparr>
   \<and> flat_requests (snd (adminRevokeBan store_banned 7000 ''B12'')) = flat_requests store_banned
   \<and> flats (snd (adminRevokeBan store_banned 7000 ''B12'')) ''A1'' = flats store_banned ''A1''"
  using C10_revoke_disable_frame [OF store_banned_flat, of 7000 False] store_banned_flat
  by (simp add: Let_def flat_b12_banned_def)

subsection \<open>Operations on rows that do not exist\<close>

text \<open>
  C5.  \<open>adminApproveRequest\<close> with a request id that has no row fails with
  \<open>REQUEST_NOT_FOUND\<close>, and \<open>adminGenerateSetupCode\<close> with a flat id that has no row fails
  with \<open>FLAT_NOT_FOUND\<close>; in both cases the store that comes back is the store that went in,
  so no row is inserted and no flat is modified.
\<close>

theorem C5_not_found_leaves_store:
  "(flat_requests st requestId = None \<longrightarrow>
      adminApproveRequest st now requestId = (Inl REQUEST_NOT_FOUND, st))
   \<and> (flats st flat_id = None \<longrightarrow>
      adminGenerateSetupCode st now rt bcrypt_hash flat_id ttlMinutes = (Inl FLAT_NOT_FOUND, st))"
  by (simp add: adminApproveRequest_def adminGenerateSetupCode_def)

theorem C5_not_found_leaves_store_witness:
  "flat_requests store_pending 7 = None
   \<and> adminApproveRequest store_pending 5000 7 = (Inl REQUEST_NOT_FOUND, store_pending)
   \<and> flats store_pending ''B12'' = None
   \<and> adminGenerateSetupCode store_pending 5000 random_zero rev ''B12'' (Fin 60 0)
       = (Inl FLAT_NOT_FOUND, store_pending)"
  using C5_not_found_leaves_store [of store_pending 7 5000 "''B12''" random_zero rev "Fin 60 0"]
    store_pending_no_request store_pending_no_flat
  by simp

subsection \<open>Rounding of doubles\<close>

lemma bitlen_less: "n < 2 ^ bitlen n"
proof (induction n rule: bitlen.induct)
  case (1 n)
  show ?case
  proof (cases "n = 0")
    case True
    then show ?thesis by (simp add: bitlen.simps)
  next
    case False
    with 1 have "n div 2 < 2 ^ bitlen (n div 2)" by simp
    then have "n < 2 * 2 ^ bitlen (n div 2)" by linarith
    with False show ?thesis by (simp add: bitlen.simps [of n])
  qed
qed

lemma bitlen_ge: "0 < n \<Longrightarrow> 2 ^ (bitlen n - 1) \<le> n"
proof (induction n rule: bitlen.induct)
  case (1 n)
  show ?case
  proof (cases "n div 2 = 0")
    case True
    with 1(2) have "bitlen n = 1" by (simp add: bitlen.simps [of n] bitlen.simps [of 0])
    with 1(2) show ?thesis by simp
  next
    case False
    with 1 have h: "2 ^ (bitlen (n div 2) - 1) \<le> n div 2" by simp
    from False have "0 < bitlen (n div 2)" by (simp add: bitlen.simps [of "n div 2"])
    then have "bitlen n - 1 = Suc (bitlen (n div 2) - 1)"
      using 1(2) by (simp add: bitlen.simps [of n])
    with h show ?thesis by simp
  qed
qed

lemma bitlen_le: "n < 2 ^ k \<Longrightarrow> bitlen n \<le> k"
proof (rule ccontr)
  assume a: "n < 2 ^ k" and "\<not> bitlen n \<le> k"
  then have k: "k \<le> bitlen n - 1" and pos: "0 < n"
    by (auto simp: bitlen.simps [of n] split: if_splits)
  from bitlen_ge [OF pos] have "2 ^ (bitlen n - 1) \<le> n" .
  moreover from k have "(2::nat) ^ k \<le> 2 ^ (bitlen n - 1)" by (simp add: power_increasing)
  ultimately show False using a by linarith
qed

lemma round_half_even_bound:
  assumes "p + n \<le> K * 2 ^ s" "2 ^ s < 2 * n"
  shows "round_half_even p s < K"
proof -
  let ?q = "p div 2 ^ s" and ?r = "p mod 2 ^ s"
  define q where "q = p div 2 ^ s"
  define r where "r = p mod 2 ^ s"
  have pq: "p = q * 2 ^ s + r" using div_mult_mod_eq [of p "2 ^ s"] by (simp add: q_def r_def)
  have n: "0 < n" using assms(2) by (cases n) auto
  have "p < K * 2 ^ s" using assms(1) n by linarith
  then have qK: "q < K" by (simp add: q_def less_mult_imp_div_less)
  have rhe: "round_half_even p s = (if 2 * r < 2 ^ s \<or> (2 * r = 2 ^ s \<and> even q) then q else q + 1)"
    by (simp add: round_half_even_def Let_def q_def r_def)
  show ?thesis
  proof (cases "q + 1 < K")
    case True
    then show ?thesis by (simp add: rhe)
  next
    case False
    with qK have K: "K = q + 1" by linarith
    have "(q + 1) * 2 ^ s = q * 2 ^ s + 2 ^ s" by (simp add: algebra_simps)
    with assms(1) pq K have "q * 2 ^ s + r + n \<le> q * 2 ^ s + 2 ^ s" by metis
    then have "r + n \<le> 2 ^ s" by linarith
    with assms(2) have "2 * r < 2 ^ s" by linarith
    with qK show ?thesis by (simp add: rhe)
  qed
qed

lemma floor_mul_unit:
  assumes r: "unit_double r" and n: "0 < n" "n < 2 ^ 52"
  shows "\<exists>i. floor_index (js_mul r (Fin (int n) 0)) = Some i \<and> 0 \<le> i \<and> i < int n"
proof -
  from r obtain mi e where re: "r = Fin mi e" by (cases r) auto
  with r have mi: "0 \<le> mi" "mi < 2 ^ 53" and e: "- 1074 \<le> e" "e \<le> 0"
    and mlt: "mi < 2 ^ nat (- e)" by auto
  define m where "m = nat mi"
  define d where "d = nat (- e)"
  define p where "p = m * n"
  have mi_m: "mi = int m" using mi by (simp add: m_def)
  have m53: "m < 2 ^ 53" using mi by (simp add: m_def nat_less_iff)
  have md: "m < 2 ^ d" using mlt mi by (simp add: m_def d_def nat_less_iff)
  have ed: "e = - int d" using e by (simp add: d_def)
  have pn: "p < n * 2 ^ d" using md n by (simp add: p_def mult.commute)
  have prod: "js_mul r (Fin (int n) 0) = round_double (int p) e"
    by (simp add: re mi_m p_def)
  have a: "nat \<bar>int p\<bar> = p" by simp
  let ?L = "bitlen p"
  let ?q = "max (int ?L - 53 + e) (- 1074)"
  show ?thesis
  proof (cases "?q \<le> e")
    case True
    then have L53: "?L \<le> 53" by simp
    have ov: "\<not> int ?L + e > 1024" using L53 e by simp
    have rd: "round_double (int p) e = (if p = 0 then Fin 0 0 else Fin (int p) e)"
      using True ov by (simp add: round_double_def Let_def del: max.bounded_iff)
    have "int p div 2 ^ d < int n"
    proof -
      have "p div 2 ^ d < n" using pn by (simp add: less_mult_imp_div_less)
      then show ?thesis by (metis of_nat_less_iff of_nat_numeral of_nat_power zdiv_int)
    qed
    moreover have "0 \<le> int p div 2 ^ d" by (simp add: pos_imp_zdiv_nonneg_iff)
    moreover have "floor_index (Fin (int p) e) = Some (int p div 2 ^ d)"
    proof (cases "e = 0")
      case True
      then have "d = 0" by (simp add: d_def)
      with True show ?thesis by simp
    next
      case False
      with e have "\<not> 0 \<le> e" by simp
      then show ?thesis by (simp add: d_def)
    qed
    moreover have "floor_index (Fin 0 0) = Some 0" by simp
    ultimately show ?thesis using n(1) unfolding prod rd
      by (cases "p = 0") simp_all
  next
    case False
    then have q: "?q = int ?L - 53 + e" and s_pos: "53 < ?L" using e by auto
    define s where "s = ?L - 53"
    have s0: "0 < s" and Ls: "?L = s + 53" using s_pos by (simp_all add: s_def)
    have qs: "?q = int s + e" using q Ls by simp
    have ppos: "0 < p" using s_pos by (auto simp: bitlen.simps [of p] split: if_splits)
    have lo: "2 ^ (s + 52) \<le> p" using bitlen_ge [OF ppos] Ls by (simp add: add.commute)
    have hi: "p < 2 ^ (s + 53)" using bitlen_less [of p] Ls by simp
    have p53: "p < 2 ^ 53 * n" using m53 n by (simp add: p_def)
    have s2n: "(2::nat) ^ s < 2 * n"
    proof -
      from lo p53 have "(2::nat) ^ s * 2 ^ 52 < 2 * n * 2 ^ 52" by (simp add: power_add)
      then show ?thesis by simp
    qed
    have ms: "2 ^ s < m"
    proof (rule ccontr)
      assume "\<not> 2 ^ s < m"
      then have "m \<le> 2 ^ s" by simp
      then have "p \<le> 2 ^ s * n" by (simp add: p_def)
      also have "\<dots> < 2 ^ s * 2 ^ 52" using n by simp
      finally show False using lo by (simp add: power_add)
    qed
    have sd: "s < d"
    proof -
      from ms md have "(2::nat) ^ s < 2 ^ d" by linarith
      then show ?thesis by (simp add: power_strict_increasing_iff)
    qed
    define K where "K = n * 2 ^ (d - s)"
    have K: "K * 2 ^ s = n * 2 ^ d"
      using sd by (simp add: K_def power_add [symmetric])
    have "p + n \<le> K * 2 ^ s"
    proof -
      have "p + n = (m + 1) * n" by (simp add: p_def)
      also have "\<dots> \<le> 2 ^ d * n" using md by (intro mult_right_mono) simp_all
      finally show ?thesis by (simp add: K mult.commute)
    qed
    from round_half_even_bound [OF this s2n]
    have rK: "round_half_even p s < K" .
    define a' where "a' = round_half_even p s"
    have a'K: "a' < n * 2 ^ (d - s)" using rK by (simp add: a'_def K_def)
    have "p div 2 ^ s < 2 ^ 53" using hi by (simp add: less_mult_imp_div_less power_add)
    then have "a' \<le> 2 ^ 53" by (simp add: a'_def round_half_even_def Let_def)
    then have "a' < 2 ^ 54" by simp
    then have "bitlen a' \<le> 54" by (rule bitlen_le)
    then have ov: "\<not> int (bitlen a') + (int s + e) > 1024" using sd ed by simp
    have neg: "\<not> 0 \<le> int s + e" using sd ed by simp
    have rd: "round_double (int p) e = (if a' = 0 then Fin 0 0 else Fin (int a') (int s + e))"
      using False ov qs s0
      by (simp add: round_double_def Let_def a'_def del: max.bounded_iff)
    have nse: "nat (- int s - e) = d - s" using sd ed by simp
    have "a' div 2 ^ (d - s) < n" using a'K by (simp add: less_mult_imp_div_less)
    then have "int a' div 2 ^ (d - s) < int n"
      by (metis of_nat_less_iff of_nat_numeral of_nat_power zdiv_int)
    moreover have "0 \<le> int a' div 2 ^ (d - s)" by (simp add: pos_imp_zdiv_nonneg_iff)
    moreover have "floor_index (Fin (int a') (int s + e)) = Some (int a' div 2 ^ (d - s))"
      using neg by (simp add: nse)
    moreover have "floor_index (Fin 0 0) = Some 0" by simp
    ultimately show ?thesis using n(1) unfolding prod rd
      by (cases "a' = 0") simp_all
  qed
qed


lemma bitlen_eqI:
  assumes "2 ^ (k - 1) \<le> n" "n < 2 ^ k" "0 < k"
  shows "bitlen n = k"
proof -
  have "bitlen n \<le> k" using assms(2) by (rule bitlen_le)
  moreover have "\<not> bitlen n \<le> k - 1"
  proof
    assume "bitlen n \<le> k - 1"
    then have "(2::nat) ^ bitlen n \<le> 2 ^ (k - 1)" by (simp add: power_increasing)
    with bitlen_less [of n] assms(1) show False by linarith
  qed
  ultimately show ?thesis using assms(3) by linarith
qed

lemma round_double_exact:
  assumes "nat \<bar>M\<bar> < 2 ^ 53" "- 1074 \<le> E" "E \<le> 971"
  shows "round_double M E = (if M = 0 then Fin 0 0 else Fin M E)"
proof -
  define a where "a = nat \<bar>M\<bar>"
  have L: "bitlen a \<le> 53" using assms(1) unfolding a_def by (rule bitlen_le)
  then have q: "max (int (bitlen a) - 53 + E) (- 1074) \<le> E"
    using assms(2) by simp
  have ov: "\<not> int (bitlen a) + E > 1024" using L assms(3) by simp
  have sg: "(if M < 0 then - int a else int a) = M" by (simp add: a_def)
  have z: "a = 0 \<longleftrightarrow> M = 0" by (simp add: a_def)
  have "round_double M E =
      (if a = 0 then Fin 0 0
       else if int (bitlen a) + E > 1024 then (if M < 0 then NegInf else PosInf)
       else Fin (if M < 0 then - int a else int a) E)"
    unfolding round_double_def Let_def a_def [symmetric] using q by (simp only: if_True)
  then show ?thesis using ov sg z by simp
qed

subsection \<open>The generated code\<close>

lemma mul_zero: "js_mul (Fin 0 0) (Fin (int n) 0) = Fin 0 0"
  by (simp add: round_double_exact)

lemma mul_half: "n < 2 ^ 53 \<Longrightarrow> 0 < n \<Longrightarrow> js_mul (Fin 1 (- 1)) (Fin (int n) 0) = Fin (int n) (- 1)"
  by (simp add: round_double_exact)

lemma code_half: "generateHumanCode 9 random_half = ''NNNN-6666''"
proof -
  have l: "random_char letters (Fin 1 (- 1)) = ''N''"
    using mul_half [of 24] by (simp add: random_char_def char_at_def letters_def)
  have d: "random_char digits (Fin 1 (- 1)) = ''6''"
    using mul_half [of 8] by (simp add: random_char_def char_at_def digits_def)
  show ?thesis by (simp add: generateHumanCode_def random_half_def l d slice0_def)
qed

lemma code_zero: "generateHumanCode 9 random_zero = ''AAAA-2222''"
proof -
  have l: "random_char letters (Fin 0 0) = ''A''"
    using mul_zero [of 24] by (simp add: random_char_def char_at_def letters_def)
  have d: "random_char digits (Fin 0 0) = ''2''"
    using mul_zero [of 8] by (simp add: random_char_def char_at_def digits_def)
  show ?thesis by (simp add: generateHumanCode_def random_zero_def l d slice0_def)
qed

text \<open>
  A product that rounds up: \<open>3190049736054101 * 2 ^ - 52 * 24\<close> is
  \<open>17 - 2 ^ - 49\<close>, half way between two doubles; the product of the doubles is 17 and
  the letter is \<open>T\<close>, where the exact product would give \<open>S\<close>.
\<close>

lemma mul_rounds_up:
  "js_mul (Fin 3190049736054101 (- 52)) (Fin 24 0) = Fin 4785074604081152 (- 48)"
proof -
  have b: "bitlen 76561193665298424 = 57" by (rule bitlen_eqI) simp_all
  have r: "round_half_even 76561193665298424 4 = 4785074604081152"
    by (simp add: round_half_even_def Let_def)
  have b': "bitlen 4785074604081152 = 53" by (rule bitlen_eqI) simp_all
  show ?thesis by (simp add: round_double_def Let_def b r b')
qed

lemma random_char_rounds_up: "random_char letters (Fin 3190049736054101 (- 52)) = ''T''"
  using mul_rounds_up by (simp add: random_char_def char_at_def letters_def)

lemma letters_ok: "list_all is_code_letter letters"
  by (simp add: letters_def is_code_letter_def)

lemma digits_ok: "list_all is_code_digit digits"
  by (simp add: digits_def is_code_digit_def)

lemma random_char_in:
  assumes "unit_double r" "alphabet \<noteq> []" "length alphabet < 2 ^ 52"
  shows "\<exists>c. random_char alphabet r = [c] \<and> c \<in> set alphabet"
proof -
  let ?n = "length alphabet"
  have "0 < ?n" using assms(2) by simp
  from floor_mul_unit [OF assms(1) this assms(3)]
  obtain i where i: "floor_index (js_mul r (Fin (int ?n) 0)) = Some i" "0 \<le> i" "i < int ?n"
    by blast
  then have "nat i < ?n" by linarith
  then have "alphabet ! nat i \<in> set alphabet" by simp
  with i show ?thesis by (simp add: random_char_def char_at_def)
qed

lemma random_letter:
  assumes "unit_double r"
  shows "\<exists>c. random_char letters r = [c] \<and> is_code_letter c"
proof -
  have "letters \<noteq> []" "length letters < 2 ^ 52" by (simp_all add: letters_def)
  from random_char_in [OF assms this] letters_ok show ?thesis
    by (auto simp: list_all_iff)
qed

lemma random_digit:
  assumes "unit_double r"
  shows "\<exists>c. random_char digits r = [c] \<and> is_code_digit c"
proof -
  have "digits \<noteq> []" "length digits < 2 ^ 52" by (simp_all add: digits_def)
  from random_char_in [OF assms this] digits_ok show ?thesis
    by (auto simp: list_all_iff)
qed

lemma four_letters:
  assumes "\<forall>k\<in>set ks. unit_double (rnd k)"
  shows "length (concat (map (\<lambda>k. random_char letters (rnd k)) ks)) = length ks
       \<and> list_all is_code_letter (concat (map (\<lambda>k. random_char letters (rnd k)) ks))"
  using assms
proof (induction ks)
  case Nil
  then show ?case by simp
next
  case (Cons k ks)
  then obtain c where "random_char letters (rnd k) = [c]" "is_code_letter c"
    using random_letter [of "rnd k"] by auto
  with Cons show ?case by simp
qed

lemma four_digits:
  assumes "\<forall>k\<in>set ks. unit_double (rnd k)"
  shows "length (concat (map (\<lambda>k. random_char digits (rnd k)) ks)) = length ks
       \<and> list_all is_code_digit (concat (map (\<lambda>k. random_char digits (rnd k)) ks))"
  using assms
proof (induction ks)
  case Nil
  then show ?case by simp
next
  case (Cons k ks)
  then obtain c where "random_char digits (rnd k) = [c]" "is_code_digit c"
    using random_digit [of "rnd k"] by auto
  with Cons show ?case by simp
qed

lemma pattern_append:
  assumes "length a = 4" "list_all is_code_letter a" "length b = 4" "list_all is_code_digit b"
  shows "setup_code_pattern (slice0 (a @ ''-'' @ b) 10)"
  using assms by (simp add: setup_code_pattern_def slice0_def nth_append)

lemma generateHumanCode_pattern:
  assumes "\<forall>k<8. unit_double (Math_random rt k)"
  shows "setup_code_pattern (generateHumanCode 9 rt)"
proof -
  have a: "\<forall>k\<in>set [0, 1, 2, 3::nat]. unit_double (Math_random rt k)"
    using assms by simp
  have b: "\<forall>k\<in>set [4, 5, 6, 7::nat]. unit_double (Math_random rt k)"
    using assms by simp
  have la: "length (concat (map (\<lambda>k. random_char letters (Math_random rt k)) [0, 1, 2, 3])) = 4"
    using four_letters [OF a] by simp
  have lb: "length (concat (map (\<lambda>k. random_char digits (Math_random rt k)) [4, 5, 6, 7])) = 4"
    using four_digits [OF b] by simp
  show ?thesis
    unfolding generateHumanCode_def Let_def
    using pattern_append [OF la _ lb] four_letters [OF a] four_digits [OF b]
    by simp
qed

lemma generateHumanCode_Math_random:
  assumes "\<forall>k<8. Math_random rt' k = Math_random rt k"
  shows "generateHumanCode len rt' = generateHumanCode len rt"
proof -
  have "Math_random rt' 0 = Math_random rt 0" "Math_random rt' 1 = Math_random rt 1"
    "Math_random rt' 2 = Math_random rt 2" "Math_random rt' 3 = Math_random rt 3"
    "Math_random rt' 4 = Math_random rt 4" "Math_random rt' 5 = Math_random rt 5"
    "Math_random rt' 6 = Math_random rt 6" "Math_random rt' 7 = Math_random rt 7"
    using assms by simp_all
  then show ?thesis by (simp add: generateHumanCode_def del: One_nat_def)
qed

lemma adminGenerateSetupCode_code:
  "flats st flat_id = Some f \<Longrightarrow>
     map_sum id res_code (fst (adminGenerateSetupCode st now rt bcrypt_hash flat_id ttlMinutes))
     = Inr (generateHumanCode 9 rt)"
  by (simp add: adminGenerateSetupCode_def Let_def)

lemma adminGenerateSetupCode_Math_random:
  assumes "\<forall>k<8. Math_random rt' k = Math_random rt k"
  shows "adminGenerateSetupCode st now rt' bcrypt_hash flat_id ttlMinutes
     = adminGenerateSetupCode st now rt bcrypt_hash flat_id ttlMinutes"
  unfolding adminGenerateSetupCode_def generateHumanCode_Math_random [OF assms] ..

text \<open>
  C3.  The specification says two things: the code has the form \<open>XXXX-NNNN\<close>, and its characters
  are drawn from a cryptographically secure random source.  If the second part held, two
  runs in which the secure generator yields the same values would return the same code.
  \<open>generateHumanCode\<close> reads \<open>Math.random()\<close> instead: with the secure generator
  yielding the same values in both runs, the run in which \<open>Math.random()\<close> returns 0
  yields \<open>AAAA-2222\<close> and the run in which it returns 0.5 yields \<open>NNNN-6666\<close>.
\<close>

theorem C3_counterexample:
  "crypto_getRandomValues random_zero = crypto_getRandomValues random_half
   \<and> map_sum id res_code
        (fst (adminGenerateSetupCode store_banned 7000 random_zero rev ''B12'' (Fin 60 0)))
       = Inr ''AAAA-2222''
   \<and> map_sum id res_code
        (fst (adminGenerateSetupCode store_banned 7000 random_half rev ''B12'' (Fin 60 0)))
       = Inr ''NNNN-6666''"
proof -
  have "crypto_getRandomValues random_zero = crypto_getRandomValues random_half"
    by (simp add: random_zero_def random_half_def)
  then show ?thesis
    by (simp only: adminGenerateSetupCode_code [OF store_banned_flat] code_half code_zero simp_thms)
qed

text \<open>
  C3, as the code has it.  On an existing flat, with each of the first eight results of
  \<open>Math.random()\<close> a double that is at least 0 and below 1, the returned code is
  \<open>generateHumanCode 9\<close>: nine characters, four letters of A to Z without I and O, a
  hyphen, and four digits of 2 to 9.  The call is determined by these eight results of
  \<open>Math.random()\<close> alone: whatever the secure generator yields, and whatever
  \<open>Math.random()\<close> returns later, the outcome is the same.
\<close>

theorem C3_setup_code_format:
  assumes "flats st flat_id = Some f"
    and "\<forall>k<8. unit_double (Math_random rt k)"
  shows "map_sum id res_code (fst (adminGenerateSetupCode st now rt bcrypt_hash flat_id ttlMinutes))
           = Inr (generateHumanCode 9 rt)
    \<and> setup_code_pattern (generateHumanCode 9 rt)
    \<and> (\<forall>rt'. (\<forall>k<8. Math_random rt' k = Math_random rt k) \<longrightarrow>
          adminGenerateSetupCode st now rt' bcrypt_hash flat_id ttlMinutes
          = adminGenerateSetupCode st now rt bcrypt_hash flat_id ttlMinutes)"
proof (intro conjI allI impI)
  show "map_sum id res_code (fst (adminGenerateSetupCode st now rt bcrypt_hash flat_id ttlMinutes))
           = Inr (generateHumanCode 9 rt)"
    by (rule adminGenerateSetupCode_code [OF assms(1)])
  show "setup_code_pattern (generateHumanCode 9 rt)"
    by (rule generateHumanCode_pattern [OF assms(2)])
  fix rt' :: js_random
  assume "\<forall>k<8. Math_random rt' k = Math_random rt k"
  then show "adminGenerateSetupCode st now rt' bcrypt_hash flat_id ttlMinutes
          = adminGenerateSetupCode st now rt bcrypt_hash flat_id ttlMinutes"
    by (rule adminGenerateSetupCode_Math_random)
qed

theorem C3_setup_code_format_witness:
  "flats store_banned ''B12'' = Some flat_b12_banned
   \<and> list_all (\<lambda>k. unit_double (Math_random random_half k)) [0, 1, 2, 3, 4, 5, 6, 7]
   \<and> map_sum id res_code
        (fst (adminGenerateSetupCode store_banned 7000 random_half rev ''B12'' (Fin 60 0)))
       = Inr ''NNNN-6666''
   \<and> setup_code_pattern ''NNNN-6666''"
proof -
  have r: "\<forall>k<8. unit_double (Math_random random_half k)"
    by (simp add: random_half_def)
  note t = C3_setup_code_format [OF store_banned_flat r, of 7000 rev "Fin 60 0"]
  from t have a: "map_sum id res_code
      (fst (adminGenerateSetupCode store_banned 7000 random_half rev ''B12'' (Fin 60 0)))
      = Inr (generateHumanCode 9 random_half)"
    by (rule conjunct1)
  from t have b: "setup_code_pattern (generateHumanCode 9 random_half)"
    by (elim conjE)
  have r': "list_all (\<lambda>k. unit_double (Math_random random_half k)) [0, 1, 2, 3, 4, 5, 6, 7]"
    by (simp add: random_half_def)
  from a b store_banned_flat r' show ?thesis
    by (simp only: code_half simp_thms)
qed

subsection \<open>Setup codes\<close>









subsection \<open>Request-rate window\<close>

lemma shift_while_old_dropWhile: "shift_while_old cutoff ts = dropWhile (\<lambda>t. t < cutoff) ts"
  by (induction ts) simp_all

lemma dropWhile_sorted_filter:
  "sorted ts \<Longrightarrow> dropWhile (\<lambda>t. t < cutoff) ts = filter (\<lambda>t. cutoff \<le> t) (ts :: int list)"
proof (induction ts)
  case Nil
  then show ?case by simp
next
  case (Cons t ts)
  show ?case
  proof (cases "t < cutoff")
    case True
    with Cons show ?thesis by simp
  next
    case False
    with Cons.prems have "\<forall>u\<in>set ts. cutoff \<le> u" by auto
    then have "filter (\<lambda>t. cutoff \<le> t) ts = ts" by (simp add: filter_id_conv)
    with False show ?thesis by simp
  qed
qed

lemma shift_while_old_all:
  "\<forall>t\<in>set ts. t < cutoff \<Longrightarrow> shift_while_old cutoff ts = []"
  by (induction ts) simp_all

lemma shift_while_old_append_new:
  "\<forall>t\<in>set ts. t < cutoff \<Longrightarrow> cutoff \<le> n \<Longrightarrow> shift_while_old cutoff (ts @ [n]) = [n]"
  by (induction ts) simp_all

lemma metrics_two_window: "requestTimestamps metrics_two = [0, 1000]"
  by (simp add: metrics_two_def metrics0_def count_request_def pruneOldRequests_def)

lemma metrics_clock_back_window: "requestTimestamps metrics_clock_back = [70000, 0]"
  by (simp add: metrics_clock_back_def metrics0_def count_request_def pruneOldRequests_def)

lemma prune_window:
  "requestTimestamps (pruneOldRequests t m)
     = dropWhile (\<lambda>u. u < t - 60000) (requestTimestamps m)"
  by (simp add: pruneOldRequests_def shift_while_old_dropWhile)

lemma prune_window_sorted:
  "sorted (requestTimestamps m) \<Longrightarrow>
     requestTimestamps (pruneOldRequests t m)
       = filter (\<lambda>u. t - 60000 \<le> u) (requestTimestamps m)"
  by (simp add: prune_window dropWhile_sorted_filter)

lemma count_request_window:
  "requestTimestamps (count_request t ip m)
     = dropWhile (\<lambda>u. u < t - 60000) (requestTimestamps m @ [t])"
  by (simp add: count_request_def pruneOldRequests_def shift_while_old_dropWhile)

lemma metrics_handler_prunes: "snd (metrics_handler t m) = pruneOldRequests t m"
  by (simp add: metrics_handler_def Let_def)

lemma buildSnapshot_prunes: "snd (buildSnapshot t h viewers m) = pruneOldRequests t m"
  by (simp add: buildSnapshot_def Let_def)

lemma buildSnapshot_rpm_zero:
  assumes "\<forall>u\<in>set (requestTimestamps m). u < now - 60000"
  shows "sn_rpm (fst (buildSnapshot now h viewers m)) = 0"
  by (simp add: buildSnapshot_def Let_def pruneOldRequests_def shift_while_old_all [OF assms])

lemma metrics_handler_rpm_zero:
  assumes "\<forall>u\<in>set (requestTimestamps m). u < now - 60000"
  shows "mr_rpm (fst (metrics_handler now m)) = 0"
  by (simp add: metrics_handler_def Let_def pruneOldRequests_def shift_while_old_all [OF assms])

lemma get_admin_api_metrics_rpm_one:
  assumes old: "\<forall>u\<in>set (requestTimestamps m). u < now - 60000"
    and t: "now \<le> t_h" "t_h \<le> now + 60000"
  shows "map_sum id mr_rpm (fst (get_admin_api_metrics now t_h ip (Some True) m)) = Inr 1"
proof -
  have w: "requestTimestamps (count_request now ip m) = [now]"
    using shift_while_old_append_new [OF old, of now]
    by (simp add: count_request_def pruneOldRequests_def)
  have "shift_while_old (t_h - 60000) [now] = [now]" using t by simp
  with w show ?thesis
    by (simp add: get_admin_api_metrics_def requireAdmin_def metrics_handler_def Let_def
        pruneOldRequests_def)
qed

text \<open>
  C8.  The specification says that after requests recorded within 60 seconds, a read 61 or more
  seconds later with no request in between reports \<open>rpm = 0\<close>.  The read of the route
  \<open>GET /admin/api/metrics\<close> is itself an HTTP request: the counting middleware appends
  its time stamp before the handler runs.  With requests recorded at 0 and 1000, the read
  at 62000 reports \<open>rpm = 1\<close>.  The specification also says that pruning removes exactly the
  entries older than \<open>now - 60000\<close>; the loop stops at the first entry that is not old, so
  when the clock has stepped back (requests at 70000, then at 0) pruning at 70000 keeps the
  entry 0.
\<close>

theorem C8_counterexample:
  "requestTimestamps metrics_two = [0, 1000]
   \<and> map_sum id mr_rpm
        (fst (get_admin_api_metrics 62000 62000 ''10.0.0.1'' (Some True) metrics_two)) = Inr 1
   \<and> requestTimestamps metrics_clock_back = [70000, 0]
   \<and> requestTimestamps (pruneOldRequests 70000 metrics_clock_back) = [70000, 0]"
  by (simp add: metrics_two_window metrics_clock_back_window get_admin_api_metrics_def
      requireAdmin_def count_request_def pruneOldRequests_def metrics_handler_def Let_def)

text \<open>
  C8, as the code has it.  Pruning at time \<open>t\<close> removes the leading entries older than
  \<open>t - 60000\<close>, which are all the entries older than that when the window is in
  non-decreasing order.  The middleware prunes after it appends, and the metrics handler
  and \<open>buildSnapshot\<close> prune before they read.  When every recorded time stamp is at most
  \<open>t_last\<close> and \<open>now\<close> is at least 61 seconds later, a snapshot built at \<open>now\<close> reports
  \<open>rpm = 0\<close>, and so does the body of the metrics handler on that window; an authenticated
  request \<open>GET /admin/api/metrics\<close> received at \<open>now\<close> and handled within the next 60
  seconds reports \<open>rpm = 1\<close>, the request itself.
\<close>

theorem C8_window_pruning:
  assumes "\<forall>u\<in>set (requestTimestamps m). u \<le> t_last" and "t_last + 61000 \<le> now"
  shows "requestTimestamps (pruneOldRequests t m)
           = dropWhile (\<lambda>u. u < t - 60000) (requestTimestamps m)
    \<and> (sorted (requestTimestamps m) \<longrightarrow>
           requestTimestamps (pruneOldRequests t m)
           = filter (\<lambda>u. t - 60000 \<le> u) (requestTimestamps m))
    \<and> requestTimestamps (count_request t ip m)
           = dropWhile (\<lambda>u. u < t - 60000) (requestTimestamps m @ [t])
    \<and> snd (metrics_handler t m) = pruneOldRequests t m
    \<and> snd (buildSnapshot t h viewers m) = pruneOldRequests t m
    \<and> sn_rpm (fst (buildSnapshot now h viewers m)) = 0
    \<and> mr_rpm (fst (metrics_handler now m)) = 0
    \<and> (now \<le> t_h \<and> t_h \<le> now + 60000 \<longrightarrow>
           map_sum id mr_rpm (fst (get_admin_api_metrics now t_h ip (Some True) m)) = Inr 1)"
proof -
  have old: "\<forall>u\<in>set (requestTimestamps m). u < now - 60000"
    using assms by fastforce
  show ?thesis
    using prune_window [of t m] prune_window_sorted [of m t] count_request_window [of t ip m]
      metrics_handler_prunes [of t m] buildSnapshot_prunes [of t h viewers m]
      buildSnapshot_rpm_zero [OF old, of h viewers] metrics_handler_rpm_zero [OF old]
      get_admin_api_metrics_rpm_one [OF old, of t_h ip]
    by blast
qed

theorem C8_window_pruning_witness:
  "list_all (\<lambda>u. u \<le> 1000) (requestTimestamps metrics_two)
   \<and> (1000::int) + 61000 \<le> 62000
   \<and> sorted (requestTimestamps metrics_two)
   \<and> requestTimestamps (pruneOldRequests 60500 metrics_two) = [1000]
   \<and> sn_rpm (fst (buildSnapshot 62000 host0 1 metrics_two)) = 0
   \<and> map_sum id mr_rpm
        (fst (get_admin_api_metrics 62000 62005 ''10.0.0.1'' (Some True) metrics_two)) = Inr 1"
proof -
  have a: "\<forall>u\<in>set (requestTimestamps metrics_two). u \<le> 1000"
    by (simp add: metrics_two_window)
  have b: "(1000::int) + 61000 \<le> 62000" by simp
  have s: "sorted (requestTimestamps metrics_two)" by (simp add: metrics_two_window)
  note t = C8_window_pruning [OF a b, of 60500 "''10.0.0.1''" host0 1 62005]
  from t s have "requestTimestamps (pruneOldRequests 60500 metrics_two)
      = filter (\<lambda>u. 60500 - 60000 \<le> u) (requestTimestamps metrics_two)"
    by blast
  then have p: "requestTimestamps (pruneOldRequests 60500 metrics_two) = [1000]"
    by (simp add: metrics_two_window)
  from t have z: "sn_rpm (fst (buildSnapshot 62000 host0 1 metrics_two)) = 0"
    by blast
  from t have o: "map_sum id mr_rpm
        (fst (get_admin_api_metrics 62000 62005 ''10.0.0.1'' (Some True) metrics_two)) = Inr 1"
    by simp
  have a': "list_all (\<lambda>u. u \<le> 1000) (requestTimestamps metrics_two)"
    by (simp add: metrics_two_window)
  from a' b s p z o show ?thesis by blast
qed

subsection \<open>Snapshot proxy\<close>

lemma slice0_take: "0 \<le> e \<Longrightarrow> slice0 s e = take (nat e) s"
  by (simp add: slice0_def Let_def min_def)

lemma fetch_not_json:
  assumes "\<not> declares_json res"
  shows "fetchUserLiveSnapshot P (Some res) =
           Inl (Error (JStr (''BAD_SNAPSHOT_RESPONSE ('' @ decimal (rs_status res) @ '') ''
              @ take 120 (case rs_body res of None \<Rightarrow> [] | Some t \<Rightarrow> t))))"
  using assms by (simp add: fetchUserLiveSnapshot_def Let_def slice0_take)

lemma fetch_json_failure:
  assumes "declares_json res" "rs_body res = Some t" "P t = Some data"
    and "\<not> res_ok res \<or> get_member data ''ok'' = Some (JBool False)"
  shows "fetchUserLiveSnapshot P (Some res) =
           Inl (Error (case get_member data ''error'' of
                         None \<Rightarrow> JStr (''SNAPSHOT_HTTP_'' @ decimal (rs_status res))
                       | Some e \<Rightarrow> if truthy e then e
                                  else JStr (''SNAPSHOT_HTTP_'' @ decimal (rs_status res))))"
  using assms by (auto simp add: fetchUserLiveSnapshot_def)

lemma fetch_json_success:
  assumes "declares_json res" "rs_body res = Some t" "P t = Some data"
    and "res_ok res" "get_member data ''ok'' \<noteq> Some (JBool False)"
  shows "fetchUserLiveSnapshot P (Some res) = Inr data"
  using assms by (simp add: fetchUserLiveSnapshot_def)

lemma html_not_json: "\<not> declares_json html_response"
  by (simp add: declares_json_def html_response_def toLowerCase_def lower_char_def upper_letters_def lower_letters_def starts_with_def)

lemma json_error_declares: "declares_json json_error_response"
  by (simp add: declares_json_def json_error_response_def toLowerCase_def lower_char_def upper_letters_def lower_letters_def
      starts_with_def)

lemma json_ok_declares: "declares_json json_ok_response"
  by (simp add: declares_json_def json_ok_response_def toLowerCase_def lower_char_def upper_letters_def lower_letters_def
      starts_with_def)

lemma decimal_502: "decimal 502 = ''502''"
  by (simp add: decimal.simps)

lemma param_json_declares: "declares_json param_json_response"
  by (simp add: declares_json_def param_json_response_def toLowerCase_def lower_char_def
      upper_letters_def lower_letters_def starts_with_def)

lemma param_json_media_type: "media_type ''text/plain; x=application/json'' = ''text/plain''"
  by (simp add: media_type_def is_ows_def toLowerCase_def lower_char_def upper_letters_def
      lower_letters_def)

lemma number_error_declares: "declares_json number_error_response"
  by (simp add: declares_json_def number_error_response_def toLowerCase_def lower_char_def
      upper_letters_def lower_letters_def starts_with_def)

lemma empty_error_declares: "declares_json empty_error_response"
  by (simp add: declares_json_def empty_error_response_def toLowerCase_def lower_char_def
      upper_letters_def lower_letters_def starts_with_def)

lemma decimal_200: "decimal 200 = ''200''"
  by (simp add: decimal.simps)

text \<open>
  C7.  The specification says that a response whose declared content type is not JSON
  fails with \<open>BAD_SNAPSHOT_RESPONSE\<close> without its body being parsed, and that a parsed
  payload of a failed call gives its error string when present and the status-coded fallback
  otherwise.  The code tests whether the lower-cased header contains the text
  \<open>application/json\<close>: a response declared \<open>text/plain; x=application/json\<close> (media type
  \<open>text/plain\<close>) passes the test, its body is parsed and the payload is returned.  The
  error is chosen with \<open>data?.error || fallback\<close>: the payload \<open>{"ok":false,"error":42}\<close>
  fails with the number 42, which is neither a string of the payload nor the fallback, and
  the payload \<open>{"ok":false,"error":""}\<close>, whose error string is present and empty, fails
  with the fallback.
\<close>

theorem C7_counterexample:
  "\<not> declared_type_is_json param_json_response
   \<and> fetchUserLiveSnapshot example_parse (Some param_json_response) =
       Inr (JObj [(''ok'', JBool True), (''streams'', JArr [])])
   \<and> fetchUserLiveSnapshot example_parse (Some number_error_response) =
       Inl (Error (JNum 42))
   \<and> get_member (JObj [(''ok'', JBool False), (''error'', JStr [])]) ''error'' = Some (JStr [])
   \<and> fetchUserLiveSnapshot example_parse (Some empty_error_response) =
       Inl (Error (JStr ''SNAPSHOT_HTTP_200''))"
proof -
  have a: "\<not> declared_type_is_json param_json_response"
    by (simp add: declared_type_is_json_def param_json_response_def param_json_media_type)
  have b: "fetchUserLiveSnapshot example_parse (Some param_json_response) =
       Inr (JObj [(''ok'', JBool True), (''streams'', JArr [])])"
    using param_json_declares
    by (simp add: fetchUserLiveSnapshot_def) (simp add: param_json_response_def
        example_parse_def res_ok_def)
  have c: "fetchUserLiveSnapshot example_parse (Some number_error_response) =
       Inl (Error (JNum 42))"
    using number_error_declares
    by (simp add: fetchUserLiveSnapshot_def) (simp add: number_error_response_def
        example_parse_def res_ok_def)
  have d: "fetchUserLiveSnapshot example_parse (Some empty_error_response) =
       Inl (Error (JStr ''SNAPSHOT_HTTP_200''))"
    using empty_error_declares
    by (simp add: fetchUserLiveSnapshot_def) (simp add: empty_error_response_def
        example_parse_def res_ok_def decimal_200)
  from a b c d show ?thesis by simp
qed

text \<open>
  C7, as the code has it.  If the lower-cased \<open>content-type\<close> header does not contain the
  text \<open>application/json\<close>, the fetch fails with the message
  \<open>BAD_SNAPSHOT_RESPONSE (status)\<close> followed by the first 120 characters of the body at
  most, and the outcome does not depend on the JSON parser: the body is not parsed.  If the
  header contains that text, the body parses, and the status is outside 200 to 299 or the
  payload has \<open>ok: false\<close>, the fetch fails with the \<open>error\<close> member of the payload when
  that member is truthy (a non-empty string is the message as it is), and with
  \<open>SNAPSHOT_HTTP_status\<close> when the member is absent or not truthy.  If the header contains
  that text, the body parses, the status is in 200 to 299 and \<open>ok\<close> is not \<open>false\<close>, the
  parsed payload is returned as it is.
\<close>

theorem C7_snapshot_proxy:
  "(\<not> declares_json res \<longrightarrow>
      fetchUserLiveSnapshot P (Some res) =
        Inl (Error (JStr (''BAD_SNAPSHOT_RESPONSE ('' @ decimal (rs_status res) @ '') ''
           @ take 120 (case rs_body res of None \<Rightarrow> [] | Some t \<Rightarrow> t))))
      \<and> length (take 120 (case rs_body res of None \<Rightarrow> [] | Some t \<Rightarrow> t)) \<le> 120
      \<and> fetchUserLiveSnapshot P' (Some res) = fetchUserLiveSnapshot P (Some res))
   \<and> (declares_json res \<and> rs_body res = Some t \<and> P t = Some data
        \<and> (\<not> res_ok res \<or> get_member data ''ok'' = Some (JBool False)) \<longrightarrow>
      (\<forall>e. get_member data ''error'' = Some (JStr e) \<and> e \<noteq> [] \<longrightarrow>
           fetchUserLiveSnapshot P (Some res) = Inl (Error (JStr e)))
      \<and> (get_member data ''error'' = None \<longrightarrow>
           fetchUserLiveSnapshot P (Some res) =
             Inl (Error (JStr (''SNAPSHOT_HTTP_'' @ decimal (rs_status res)))))
      \<and> fetchUserLiveSnapshot P (Some res) =
           Inl (Error (case get_member data ''error'' of
                         None \<Rightarrow> JStr (''SNAPSHOT_HTTP_'' @ decimal (rs_status res))
                       | Some e \<Rightarrow> if truthy e then e
                                  else JStr (''SNAPSHOT_HTTP_'' @ decimal (rs_status res)))))
   \<and> (declares_json res \<and> rs_body res = Some t \<and> P t = Some data
        \<and> res_ok res \<and> get_member data ''ok'' \<noteq> Some (JBool False) \<longrightarrow>
      fetchUserLiveSnapshot P (Some res) = Inr data)"
proof (intro conjI impI allI)
  assume n: "\<not> declares_json res"
  show "fetchUserLiveSnapshot P (Some res) =
        Inl (Error (JStr (''BAD_SNAPSHOT_RESPONSE ('' @ decimal (rs_status res) @ '') ''
           @ take 120 (case rs_body res of None \<Rightarrow> [] | Some t \<Rightarrow> t))))"
    by (rule fetch_not_json [OF n])
  show "length (take 120 (case rs_body res of None \<Rightarrow> [] | Some t \<Rightarrow> t)) \<le> 120"
    by simp
  show "fetchUserLiveSnapshot P' (Some res) = fetchUserLiveSnapshot P (Some res)"
    by (simp only: fetch_not_json [OF n])
next
  fix e
  assume a: "declares_json res \<and> rs_body res = Some t \<and> P t = Some data
        \<and> (\<not> res_ok res \<or> get_member data ''ok'' = Some (JBool False))"
    and e: "get_member data ''error'' = Some (JStr e) \<and> e \<noteq> []"
  from a have "fetchUserLiveSnapshot P (Some res) =
           Inl (Error (case get_member data ''error'' of
                         None \<Rightarrow> JStr (''SNAPSHOT_HTTP_'' @ decimal (rs_status res))
                       | Some e \<Rightarrow> if truthy e then e
                                  else JStr (''SNAPSHOT_HTTP_'' @ decimal (rs_status res))))"
    using fetch_json_failure [of res t P data] by blast
  with e show "fetchUserLiveSnapshot P (Some res) = Inl (Error (JStr e))" by simp
next
  assume a: "declares_json res \<and> rs_body res = Some t \<and> P t = Some data
        \<and> (\<not> res_ok res \<or> get_member data ''ok'' = Some (JBool False))"
    and e: "get_member data ''error'' = None"
  from a have "fetchUserLiveSnapshot P (Some res) =
           Inl (Error (case get_member data ''error'' of
                         None \<Rightarrow> JStr (''SNAPSHOT_HTTP_'' @ decimal (rs_status res))
                       | Some e \<Rightarrow> if truthy e then e
                                  else JStr (''SNAPSHOT_HTTP_'' @ decimal (rs_status res))))"
    using fetch_json_failure [of res t P data] by blast
  with e show "fetchUserLiveSnapshot P (Some res) =
             Inl (Error (JStr (''SNAPSHOT_HTTP_'' @ decimal (rs_status res))))" by simp
next
  assume a: "declares_json res \<and> rs_body res = Some t \<and> P t = Some data
        \<and> (\<not> res_ok res \<or> get_member data ''ok'' = Some (JBool False))"
  then show "fetchUserLiveSnapshot P (Some res) =
           Inl (Error (case get_member data ''error'' of
                         None \<Rightarrow> JStr (''SNAPSHOT_HTTP_'' @ decimal (rs_status res))
                       | Some e \<Rightarrow> if truthy e then e
                                  else JStr (''SNAPSHOT_HTTP_'' @ decimal (rs_status res))))"
    using fetch_json_failure [of res t P data] by blast
next
  assume "declares_json res \<and> rs_body res = Some t \<and> P t = Some data
        \<and> res_ok res \<and> get_member data ''ok'' \<noteq> Some (JBool False)"
  then show "fetchUserLiveSnapshot P (Some res) = Inr data"
    using fetch_json_success [of res t P data] by blast
qed


theorem C7_snapshot_proxy_witness:
  "\<not> declares_json html_response
   \<and> fetchUserLiveSnapshot example_parse (Some html_response) =
       Inl (Error (JStr (''BAD_SNAPSHOT_RESPONSE (502) <html>'' @ replicate 114 CHR ''x'')))
   \<and> declares_json json_error_response
   \<and> fetchUserLiveSnapshot example_parse (Some json_error_response) =
       Inl (Error (JStr ''BAD_TOKEN''))
   \<and> declares_json json_ok_response
   \<and> fetchUserLiveSnapshot example_parse (Some json_ok_response) =
       Inr (JObj [(''ok'', JBool True), (''streams'', JArr [])])"
proof -
  note n = html_not_json and e = json_error_declares and k = json_ok_declares
  have "fetchUserLiveSnapshot example_parse (Some html_response) =
       Inl (Error (JStr (''BAD_SNAPSHOT_RESPONSE (502) <html>'' @ replicate 114 CHR ''x'')))"
    using C7_snapshot_proxy [of html_response example_parse example_parse] n
    by (simp add: html_response_def decimal_502 replicate_append_same)
  moreover have "fetchUserLiveSnapshot example_parse (Some json_error_response) =
       Inl (Error (JStr ''BAD_TOKEN''))"
    using C7_snapshot_proxy [of json_error_response example_parse example_parse
        "the (rs_body json_error_response)"
        "JObj [(''ok'', JBool False), (''error'', JStr ''BAD_TOKEN'')]"] e
    by (simp add: json_error_response_def example_parse_def)
  moreover have "fetchUserLiveSnapshot example_parse (Some json_ok_response) =
       Inr (JObj [(''ok'', JBool True), (''streams'', JArr [])])"
    using C7_snapshot_proxy [of json_ok_response example_parse example_parse
        "the (rs_body json_ok_response)"
        "JObj [(''ok'', JBool True), (''streams'', JArr [])]"] k
    by (simp add: json_ok_response_def example_parse_def res_ok_def)
  ultimately show ?thesis using n e k by simp
qed

subsection \<open>WebSocket upgrade\<close>











subsection \<open>Normalisation of flat ids\<close>






























end
